theory Spec2Isabelle
  imports Main
begin

section \<open>JavaScript values\<close>

text \<open>
  The client is TypeScript; its types are erased at run time. Every value that reaches
  the store from the network (\<open>JSON.parse(event.data)\<close>, \<open>response.json()\<close>) is
  typed \<open>any\<close>, so the store's fields hold JavaScript values. A number is held as its
  \<open>String()\<close> rendering, which fixes the double up to the sign of zero; the client
  only tests numbers for truthiness and renders them.
\<close>

datatype jsval =
    JUndefined
  | JNull
  | JBool bool
  | JNum string
  | JStr string
  | JArr "jsval list"
  | JObj "(string \<times> jsval) list"

text \<open>Truthiness, as \<open>if (v)\<close>, \<open>a && b\<close> and \<open>a || b\<close> test it.\<close>

fun truthy :: "jsval \<Rightarrow> bool" where
  "truthy JUndefined = False"
| "truthy JNull = False"
| "truthy (JBool b) = b"
| "truthy (JNum t) = (t \<noteq> ''0'' \<and> t \<noteq> ''NaN'')"
| "truthy (JStr s) = (s \<noteq> [])"
| "truthy (JArr xs) = True"
| "truthy (JObj kvs) = True"

text \<open>\<open>a || b\<close>.\<close>

definition or_else :: "jsval \<Rightarrow> jsval \<Rightarrow> jsval" where
  "or_else a b = (if truthy a then a else b)"

text \<open>
  \<open>v.k\<close> for the property names the client reads (type, content, is_complete, detail,
  session_id; none of them a property of a string, an array or a prototype). Reading a
  property of null or undefined throws a TypeError: the result is None there. The list
  of a \<open>JObj\<close> is the object's own properties, as JSON.parse has built them.
\<close>

fun getprop :: "jsval \<Rightarrow> string \<Rightarrow> jsval option" where
  "getprop JUndefined k = None"
| "getprop JNull k = None"
| "getprop (JObj kvs) k = (case map_of kvs k of None \<Rightarrow> Some JUndefined | Some v \<Rightarrow> Some v)"
| "getprop v k = Some JUndefined"

fun join :: "string list \<Rightarrow> string" where
  "join [] = []"
| "join [x] = x"
| "join (x # y # ys) = x @ '','' @ join (y # ys)"

text \<open>
  \<open>String(v)\<close>, as a template literal and \<open>new Error(v)\<close> apply it. None: the
  conversion throws a TypeError. It does for an object that has a property of its own
  named toString (a parsed value is never callable, and \<open>valueOf\<close> gives no primitive),
  and for an array that holds such an object, since an array is converted by joining
  the conversions of its elements.
\<close>

fun toString :: "jsval \<Rightarrow> string option" where
  "toString JUndefined = Some ''undefined''"
| "toString JNull = Some ''null''"
| "toString (JBool b) = Some (if b then ''true'' else ''false'')"
| "toString (JNum t) = Some t"
| "toString (JStr s) = Some s"
| "toString (JArr xs) =
     map_option join
       (those (map (\<lambda>v. if v = JNull \<or> v = JUndefined then Some [] else toString v) xs))"
| "toString (JObj kvs) =
     (if map_of kvs ''toString'' = None then Some ''[object Object]'' else None)"

section \<open>The session store (stores/session.ts)\<close>

datatype Role = User | Assistant

record Message =
  id' :: string
  role :: Role
  content :: jsval
  timestamp :: nat

record SessionState =
  sessionId :: jsval
  isUploading :: bool
  isComplete :: bool
  messages :: "Message list"
  isConnected :: bool
  error :: jsval

text \<open>The value \<open>writable\<close> is created with (createSessionStore, lines 20-27).\<close>

definition initial :: SessionState where
  "initial = \<lparr> sessionId = JNull, isUploading = False, isComplete = False,
               messages = [], isConnected = False, error = JNull \<rparr>"

definition setSession :: "jsval \<Rightarrow> SessionState \<Rightarrow> SessionState" where
  "setSession sid state = state\<lparr> sessionId := sid, error := JNull \<rparr>"

definition setUploading :: "bool \<Rightarrow> SessionState \<Rightarrow> SessionState" where
  "setUploading b state = state\<lparr> isUploading := b \<rparr>"

definition setComplete :: "bool \<Rightarrow> SessionState \<Rightarrow> SessionState" where
  "setComplete b state = state\<lparr> isComplete := b \<rparr>"

definition setConnected :: "bool \<Rightarrow> SessionState \<Rightarrow> SessionState" where
  "setConnected b state = state\<lparr> isConnected := b \<rparr>"

definition setError :: "jsval \<Rightarrow> SessionState \<Rightarrow> SessionState" where
  "setError e state = state\<lparr> error := e \<rparr>"

text \<open>
  addMessage: \<open>uuid\<close> is what \<open>crypto.randomUUID()\<close> returns for this call and
  \<open>now\<close> what \<open>new Date()\<close> reads (milliseconds); both come from the environment.
\<close>

definition addMessage :: "string \<Rightarrow> nat \<Rightarrow> Role \<Rightarrow> jsval \<Rightarrow> SessionState \<Rightarrow> SessionState" where
  "addMessage uuid now r c state =
     state\<lparr> messages := messages state @
       [\<lparr> id' = uuid, role = r, content = c, timestamp = now \<rparr>] \<rparr>"

text \<open>reset: \<open>set\<close> of a literal of its own (lines 54-62); the old state is not read.\<close>

definition reset :: "SessionState \<Rightarrow> SessionState" where
  "reset state = \<lparr> sessionId = JNull, isUploading = False, isComplete = False,
                   messages = [], isConnected = False, error = JNull \<rparr>"

definition hasSession :: "SessionState \<Rightarrow> bool" where
  "hasSession state = (sessionId state \<noteq> JNull)"

definition canDownload :: "SessionState \<Rightarrow> bool" where
  "canDownload state = isComplete state"

text \<open>The store's mutations as data, to speak of all of them at once.\<close>

datatype mutation =
    SetSession jsval
  | SetUploading bool
  | SetComplete bool
  | SetConnected bool
  | SetError jsval
  | AddMessage string nat Role jsval
  | Reset

fun mutate :: "mutation \<Rightarrow> SessionState \<Rightarrow> SessionState" where
  "mutate (SetSession sid) state = setSession sid state"
| "mutate (SetUploading b) state = setUploading b state"
| "mutate (SetComplete b) state = setComplete b state"
| "mutate (SetConnected b) state = setConnected b state"
| "mutate (SetError e) state = setError e state"
| "mutate (AddMessage uuid now r c) state = addMessage uuid now r c state"
| "mutate Reset state = reset state"

text \<open>One addMessage call: what the environment supplied and what the caller passed.\<close>

type_synonym add_call = "string \<times> nat \<times> Role \<times> jsval"

definition new_message :: "add_call \<Rightarrow> Message" where
  "new_message call = (case call of (uuid, now, r, c) \<Rightarrow>
     \<lparr> id' = uuid, role = r, content = c, timestamp = now \<rparr>)"

definition addMessages :: "add_call list \<Rightarrow> SessionState \<Rightarrow> SessionState" where
  "addMessages calls state =
     foldl (\<lambda>st call. case call of (uuid, now, r, c) \<Rightarrow> addMessage uuid now r c st) state calls"

section \<open>The transport client (api.ts)\<close>

text \<open>
  A thrown value. Everything the modelled code throws or is thrown at is an instance of
  \<open>Error\<close> and has a message: \<open>Error m\<close> is \<open>new Error(m)\<close>, a
  \<open>SyntaxError\<close> is what \<open>response.json()\<close> rejects with when the body is not JSON,
  a \<open>TypeError\<close> what a rejected \<open>fetch\<close> or a property read on null gives. The text
  of the last two is the engine's.
\<close>

datatype exn = Error string | SyntaxError string | TypeError string

fun message :: "exn \<Rightarrow> string" where
  "message (Error m) = m"
| "message (SyntaxError m) = m"
| "message (TypeError m) = m"

text \<open>What a conversion to a string throws when it fails, and reading property \<open>k\<close> of null
  (V8's wording).\<close>

definition cannot_convert :: exn where
  "cannot_convert = TypeError ''Cannot convert object to primitive value''"

definition null_read :: "string \<Rightarrow> exn" where
  "null_read k = TypeError (''Cannot read properties of null (reading '' @ [CHR 0x27] @ k @ [CHR 0x27] @ '')'')"

datatype File = File (name: string)

datatype body = NoBody | FormFile File | JsonBody jsval

record Request =
  req_method :: string
  req_url :: string
  req_body :: body

text \<open>
  What the client reads of a response: \<open>response.ok\<close>, and what
  \<open>await response.json()\<close> gives (\<open>Inl\<close>: it rejects).
\<close>

record Response =
  ok :: bool
  json :: "exn + jsval"

text \<open>What \<open>await fetch(...)\<close> gives (\<open>Inl\<close>: it rejects); the network answers a request.\<close>

type_synonym fetched = "exn + Response"
type_synonym network = "Request \<Rightarrow> fetched"

definition API_BASE :: string where
  "API_BASE = ''http://localhost:8000/api''"

text \<open>
  The three operations share one shape (lines 28-31, 45-48, 58-61): on a response that
  is not ok, \<open>throw new Error(error.detail || fallback)\<close> with \<open>error\<close> the parsed body.
\<close>

definition fail_with :: "string \<Rightarrow> Response \<Rightarrow> exn" where
  "fail_with fallback response =
     (case json response of
        Inl e \<Rightarrow> e
      | Inr err \<Rightarrow>
          (case getprop err ''detail'' of
             None \<Rightarrow> null_read ''detail''
           | Some detail \<Rightarrow>
               (case toString (or_else detail (JStr fallback)) of
                  None \<Rightarrow> cannot_convert
                | Some m \<Rightarrow> Error m)))"

definition uploadRequest :: "File \<Rightarrow> Request" where
  "uploadRequest file =
     \<lparr> req_method = ''POST'', req_url = API_BASE @ ''/upload'', req_body = FormFile file \<rparr>"

text \<open>Each operation returns its outcome and the requests it has made.\<close>

definition uploadDocument :: "network \<Rightarrow> File \<Rightarrow> (exn + jsval) \<times> Request list" where
  "uploadDocument net file =
     (case net (uploadRequest file) of
        Inl e \<Rightarrow> (Inl e, [uploadRequest file])
      | Inr response \<Rightarrow>
          if \<not> ok response then (Inl (fail_with ''Upload failed'' response), [uploadRequest file])
          else (json response, [uploadRequest file]))"

text \<open>
  The url of sendMessage, getStatus and getDownloadUrl is a template literal over the
  session id: where its conversion throws, the operation fails before any request.
\<close>

definition chatRequest :: "jsval \<Rightarrow> string \<Rightarrow> exn + Request" where
  "chatRequest sid msg =
     (case toString sid of
        None \<Rightarrow> Inl cannot_convert
      | Some s \<Rightarrow>
          Inr \<lparr> req_method = ''POST'', req_url = API_BASE @ ''/chat/'' @ s,
                req_body = JsonBody (JObj [(''message'', JStr msg)]) \<rparr>)"

definition sendMessage :: "network \<Rightarrow> jsval \<Rightarrow> string \<Rightarrow> (exn + unit) \<times> Request list" where
  "sendMessage net sid msg =
     (case chatRequest sid msg of
        Inl e \<Rightarrow> (Inl e, [])
      | Inr request \<Rightarrow>
          (case net request of
             Inl e \<Rightarrow> (Inl e, [request])
           | Inr response \<Rightarrow>
               if \<not> ok response
               then (Inl (fail_with ''Failed to send message'' response), [request])
               else (Inr (), [request])))"

definition statusRequest :: "jsval \<Rightarrow> exn + Request" where
  "statusRequest sid =
     (case toString sid of
        None \<Rightarrow> Inl cannot_convert
      | Some s \<Rightarrow>
          Inr \<lparr> req_method = ''GET'', req_url = API_BASE @ ''/status/'' @ s, req_body = NoBody \<rparr>)"

definition getStatus :: "network \<Rightarrow> jsval \<Rightarrow> (exn + jsval) \<times> Request list" where
  "getStatus net sid =
     (case statusRequest sid of
        Inl e \<Rightarrow> (Inl e, [])
      | Inr request \<Rightarrow>
          (case net request of
             Inl e \<Rightarrow> (Inl e, [request])
           | Inr response \<Rightarrow>
               if \<not> ok response then (Inl (fail_with ''Failed to get status'' response), [request])
               else (json response, [request])))"

definition getDownloadUrl :: "jsval \<Rightarrow> exn + string" where
  "getDownloadUrl sid =
     (case toString sid of
        None \<Rightarrow> Inl cannot_convert
      | Some s \<Rightarrow> Inr (API_BASE @ ''/download/'' @ s))"

text \<open>
  The error policy in the spec's words, to compare the code with: the message is the
  JSON error body's detail field when present, and the generic fallback otherwise.
\<close>

definition spec_error_message :: "string \<Rightarrow> Response \<Rightarrow> string" where
  "spec_error_message fallback response =
     (case json response of
        Inr (JObj kvs) \<Rightarrow>
          (case map_of kvs ''detail'' of
             Some (JStr d) \<Rightarrow> d
           | _ \<Rightarrow> fallback)
      | _ \<Rightarrow> fallback)"

section \<open>The upload zone (FileUpload.svelte)\<close>

text \<open>\<open>s.endsWith(suf)\<close>.\<close>

definition endsWith :: "string \<Rightarrow> string \<Rightarrow> bool" where
  "endsWith s suf = (length suf \<le> length s \<and> drop (length s - length suf) s = suf)"

text \<open>
  handleFile, run to its end with nothing else in between: the new store and the
  requests made. \<open>error instanceof Error\<close> holds of every \<open>exn\<close>, so the catch
  block surfaces the message.
\<close>

definition handleFile :: "network \<Rightarrow> File \<Rightarrow> SessionState \<Rightarrow> SessionState \<times> Request list" where
  "handleFile net file state =
     (if \<not> endsWith (name file) ''.docx''
      then (setError (JStr ''Please upload a .docx file'') state, [])
      else
        let st1 = setError JNull (setUploading True state);
            (result, requests) = uploadDocument net file;
            st2 = (case result of
                     Inl e \<Rightarrow> setError (JStr (message e)) st1
                   | Inr response \<Rightarrow>
                       (case getprop response ''session_id'' of
                          None \<Rightarrow> setError (JStr (message (null_read ''session_id''))) st1
                        | Some sid \<Rightarrow> setSession sid st1))
        in (setUploading False st2, requests))"

section \<open>The streaming event consumer (ChatInterface.svelte) and the page\<close>

datatype ReadyState = CONNECTING | OPEN | CLOSED

text \<open>
  An EventSource of the browser: its url, its readyState, and the ChatInterface
  instance whose \<open>onmessage\<close> and \<open>onerror\<close> closures are attached to it.
\<close>

record EventSource =
  url :: string
  readyState :: ReadyState
  listener :: "nat option"

text \<open>createEventSource: the url is a template literal, so it throws where the conversion does.\<close>

definition createEventSource :: "jsval \<Rightarrow> exn + EventSource" where
  "createEventSource sid =
     (case toString sid of
        None \<Rightarrow> Inl cannot_convert
      | Some s \<Rightarrow>
          Inr \<lparr> url = API_BASE @ ''/chat/stream/'' @ s, readyState = CONNECTING, listener = None \<rparr>)"

text \<open>
  The running page. \<open>sources\<close> holds every EventSource constructed so far, a handle is
  its index. The page renders ChatInterface only while \<open>hasSession\<close>, so the component
  is instantiated once per session: \<open>eventSource\<close> holds the variable
  \<open>let eventSource\<close> of every instance created so far (closures outlive the
  component), \<open>mounted\<close> the instance on the page, and \<open>timers\<close> the instances whose
  \<open>setTimeout(reconnectSSE, 2000)\<close> callbacks are pending, in the order they were set.
\<close>

record App =
  store :: SessionState
  sources :: "EventSource list"
  eventSource :: "nat option list"
  mounted :: "nat option"
  timers :: "nat list"

definition start :: App where
  "start = \<lparr> store = initial, sources = [], eventSource = [], mounted = None, timers = [] \<rparr>"

text \<open>\<open>sources[h].close()\<close>.\<close>

definition close :: "nat \<Rightarrow> App \<Rightarrow> App" where
  "close h app = app\<lparr> sources := (sources app)[h := (sources app ! h)\<lparr> readyState := CLOSED \<rparr>] \<rparr>"

text \<open>\<open>if (eventSource) eventSource.close()\<close>, in instance \<open>i\<close>.\<close>

definition close_current :: "nat \<Rightarrow> App \<Rightarrow> App" where
  "close_current i app = (case eventSource app ! i of None \<Rightarrow> app | Some h \<Rightarrow> close h app)"

text \<open>
  connectSSE of instance \<open>i\<close>. Where createEventSource throws, connectSSE has done
  nothing yet and the exception leaves it: the state is as before. Nothing follows the
  call of connectSSE in any of its callers (reconnectSSE, onMount, the effect), and the
  message handler catches the exception, so a connectSSE that throws is a connectSSE
  that changes nothing.
\<close>

definition connectSSE :: "nat \<Rightarrow> App \<Rightarrow> App" where
  "connectSSE i app =
     (let sid = sessionId (store app) in
      if \<not> truthy sid then app
      else
        (case createEventSource sid of
           Inl e \<Rightarrow> app
         | Inr source \<Rightarrow>
             app\<lparr> sources := sources app @ [source\<lparr> listener := Some i \<rparr>],
                  eventSource := (eventSource app)[i := Some (length (sources app))],
                  store := setConnected True (store app) \<rparr>))"

definition reconnectSSE :: "nat \<Rightarrow> App \<Rightarrow> App" where
  "reconnectSSE i app =
     (let app1 = close_current i app
      in if truthy (sessionId (store app1)) then connectSSE i app1 else app1)"

text \<open>
  The \<open>onmessage\<close> closure of instance \<open>i\<close>. \<open>parsed\<close> is
  \<open>JSON.parse(event.data)\<close>, None when it throws; a TypeError on a property read of
  null is caught by the same \<open>catch\<close>: the three reads of \<open>data\<close> succeed or throw
  together, so they are taken first. \<open>uuid\<close> and \<open>now\<close> are what addMessage would
  generate.
\<close>

definition onmessage :: "nat \<Rightarrow> jsval option \<Rightarrow> string \<Rightarrow> nat \<Rightarrow> App \<Rightarrow> App" where
  "onmessage i parsed uuid now app =
     (case parsed of
        None \<Rightarrow> app
      | Some data \<Rightarrow>
          (case (getprop data ''type'', getprop data ''content'', getprop data ''is_complete'') of
             (Some ty, Some c, Some complete) \<Rightarrow>
               if ty = JStr ''message'' \<and> truthy c
               then app\<lparr> store := addMessage uuid now Assistant c (store app) \<rparr>
               else if ty = JStr ''done''
               then reconnectSSE i
                      (if truthy complete then app\<lparr> store := setComplete True (store app) \<rparr> else app)
               else if ty = JStr ''error''
               then app\<lparr> store := setError c (store app) \<rparr>
               else app
           | _ \<Rightarrow> app))"

text \<open>
  handleSubmit, run to its end with nothing else in between and no other send in flight
  (\<open>isSending\<close> false): \<open>msg\<close> is \<open>inputValue.trim()\<close>. The new store and the requests
  made.
\<close>

definition handleSubmit ::
  "network \<Rightarrow> string \<Rightarrow> string \<Rightarrow> nat \<Rightarrow> SessionState \<Rightarrow> SessionState \<times> Request list" where
  "handleSubmit net msg uuid now state =
     (if msg = [] \<or> \<not> truthy (sessionId state) then (state, [])
      else
        let st1 = addMessage uuid now User (JStr msg) state;
            (result, requests) = sendMessage net (sessionId st1) msg
        in (case result of
              Inl e \<Rightarrow> (setError (JStr (message e)) st1, requests)
            | Inr u \<Rightarrow> (st1, requests)))"

text \<open>The \<open>onerror\<close> closure of instance \<open>i\<close>.\<close>

definition onerror :: "nat \<Rightarrow> App \<Rightarrow> App" where
  "onerror i app = app\<lparr> store := setConnected False (store app), timers := timers app @ [i] \<rparr>"

definition handleNewSession :: "nat \<Rightarrow> App \<Rightarrow> App" where
  "handleNewSession i app =
     (let app1 = close_current i app in app1\<lparr> store := reset (store app1) \<rparr>)"

definition onMount :: "nat \<Rightarrow> App \<Rightarrow> App" where
  "onMount i app = (if truthy (sessionId (store app)) then connectSSE i app else app)"

definition onDestroy :: "nat \<Rightarrow> App \<Rightarrow> App" where
  "onDestroy i app = close_current i app"

text \<open>The \<open>$effect\<close> of instance \<open>i\<close>; it runs after onMount and when the store changes.\<close>

definition effect :: "nat \<Rightarrow> App \<Rightarrow> App" where
  "effect i app =
     (if truthy (sessionId (store app)) \<and> eventSource app ! i = None then connectSSE i app else app)"

text \<open>
  The page after a store change (\<open>{#if $hasSession} <ChatInterface /> {:else} ...
  <FileUpload /> {/if}\<close>): it creates a ChatInterface when a session appears and
  destroys it when the session is gone.
\<close>

definition render :: "App \<Rightarrow> App" where
  "render app =
     (if hasSession (store app) then
        (case mounted app of
           Some i \<Rightarrow> effect i app
         | None \<Rightarrow>
             let i = length (eventSource app)
             in effect i (onMount i (app\<lparr> eventSource := eventSource app @ [None], mounted := Some i \<rparr>)))
      else
        (case mounted app of
           Some i \<Rightarrow> (onDestroy i app)\<lparr> mounted := None \<rparr>
         | None \<Rightarrow> app))"

text \<open>
  What can happen to the page. An event that cannot happen in a state (a message on a
  handle that is not open, a file dropped while the upload zone is not shown) leaves
  the state as it is.
\<close>

datatype event =
    Upload File fetched
  | TransportOpen nat
  | StreamMessage nat "jsval option" string nat
  | TransportError nat bool
  | Timeout nat
  | Submit string fetched string nat
  | NewSession

fun step :: "event \<Rightarrow> App \<Rightarrow> App" where
  "step (Upload file answer) app =
     (if mounted app = None
      then render (app\<lparr> store := fst (handleFile (\<lambda>request. answer) file (store app)) \<rparr>)
      else app)"
| "step (TransportOpen h) app =
     (if h < length (sources app) \<and> readyState (sources app ! h) = CONNECTING
      then app\<lparr> sources := (sources app)[h := (sources app ! h)\<lparr> readyState := OPEN \<rparr>] \<rparr>
      else app)"
| "step (StreamMessage h parsed uuid now) app =
     (if h < length (sources app) \<and> readyState (sources app ! h) = OPEN
      then (case listener (sources app ! h) of
              None \<Rightarrow> app
            | Some i \<Rightarrow> render (onmessage i parsed uuid now app))
      else app)"
| "step (TransportError h fatal) app =
     (if h < length (sources app) \<and> readyState (sources app ! h) \<noteq> CLOSED
      then (case listener (sources app ! h) of
              None \<Rightarrow> app
            | Some i \<Rightarrow>
                render (onerror i (app\<lparr> sources := (sources app)
                  [h := (sources app ! h)\<lparr> readyState := (if fatal then CLOSED else CONNECTING) \<rparr>] \<rparr>)))
      else app)"
| "step (Timeout k) app =
     (if k < length (timers app)
      then render (reconnectSSE (timers app ! k)
                     (app\<lparr> timers := take k (timers app) @ drop (Suc k) (timers app) \<rparr>))
      else app)"
| "step (Submit msg answer uuid now) app =
     (case mounted app of
        None \<Rightarrow> app
      | Some i \<Rightarrow> render (app\<lparr> store := fst (handleSubmit (\<lambda>request. answer) msg uuid now (store app)) \<rparr>))"
| "step NewSession app =
     (case mounted app of
        None \<Rightarrow> app
      | Some i \<Rightarrow> render (handleNewSession i app))"

definition run :: "event list \<Rightarrow> App \<Rightarrow> App" where
  "run events app = foldl (\<lambda>a e. step e a) app events"

text \<open>
  A step relates the state before and after: it never removes an EventSource, and
  \<open>isConnected\<close> is true afterwards only if it was true before or an EventSource was
  constructed in between.
\<close>

definition opened_or_kept :: "App \<Rightarrow> App \<Rightarrow> bool" where
  "opened_or_kept app app' =
     (length (sources app) \<le> length (sources app')
      \<and> (isConnected (store app') \<longrightarrow>
           isConnected (store app) \<or> length (sources app) < length (sources app')))"

text \<open>Events used as examples: a successful upload answered with a session id, and a done event.\<close>

definition uploaded :: "string \<Rightarrow> event" where
  "uploaded sid = Upload (File ''form.docx'')
     (Inr \<lparr> ok = True, json = Inr (JObj [(''session_id'', JStr sid), (''message'', JStr ''ok'')]) \<rparr>)"

definition done_event :: "bool \<Rightarrow> jsval option" where
  "done_event b = Some (JObj [(''type'', JStr ''done''), (''is_complete'', JBool b)])"

text \<open>
  The connection discipline of the page. \<open>owned\<close>: every EventSource that is not closed
  is the current handle of the mounted component, whose closures are attached to it.
  \<open>tidy\<close>: that, and the mounted component exists, and isComplete is false when there is
  no session. \<open>consistent\<close>: tidy, and a component is mounted exactly when there is a
  session. A timer is stale when it fires for a component that is no longer the mounted
  one while a session id is set; a run is orderly when no stale timer fires in it.
\<close>

definition owned :: "App \<Rightarrow> bool" where
  "owned app =
     (\<forall>h. h < length (sources app) \<and> readyState (sources app ! h) \<noteq> CLOSED \<longrightarrow>
        (\<exists>i. mounted app = Some i \<and> listener (sources app ! h) = Some i
             \<and> eventSource app ! i = Some h))"

definition all_closed :: "App \<Rightarrow> bool" where
  "all_closed app = (\<forall>h. h < length (sources app) \<longrightarrow> readyState (sources app ! h) = CLOSED)"

definition tidy :: "App \<Rightarrow> bool" where
  "tidy app =
     ((sessionId (store app) = JNull \<longrightarrow> \<not> isComplete (store app))
      \<and> (\<forall>i. mounted app = Some i \<longrightarrow> i < length (eventSource app))
      \<and> owned app)"

definition consistent :: "App \<Rightarrow> bool" where
  "consistent app = (tidy app \<and> (mounted app = None \<longleftrightarrow> sessionId (store app) = JNull))"

fun stale_timer :: "event \<Rightarrow> App \<Rightarrow> bool" where
  "stale_timer (Timeout k) app =
     (k < length (timers app) \<and> mounted app \<noteq> Some (timers app ! k)
      \<and> truthy (sessionId (store app)))"
| "stale_timer e app = False"

fun orderly :: "event list \<Rightarrow> App \<Rightarrow> bool" where
  "orderly [] app = True"
| "orderly (e # es) app = (\<not> stale_timer e app \<and> orderly es (step e app))"

section \<open>Properties of the store\<close>

lemmas model_defs =
  run_def uploaded_def done_event_def start_def initial_def render_def hasSession_def
  handleFile_def endsWith_def uploadDocument_def uploadRequest_def API_BASE_def
  onMount_def effect_def onDestroy_def connectSSE_def reconnectSSE_def close_current_def
  close_def createEventSource_def onmessage_def onerror_def handleNewSession_def
  setSession_def setUploading_def setComplete_def setConnected_def setError_def reset_def
  Let_def

lemma addMessages_messages:
  "messages (addMessages calls state) = messages state @ map new_message calls"
  unfolding addMessages_def
  by (induction calls arbitrary: state)
     (auto simp: addMessage_def new_message_def split: prod.splits)

text \<open>
  C5. Each addMessage call appends exactly one Message, built from the id and the
  timestamp generated for the call and from the role and content passed; the messages
  already there stay as they are, in their order; a sequence of calls appends its
  messages in call order.
\<close>

theorem addMessage_appends:
  "messages (addMessage uuid now r c state) =
     messages state @ [\<lparr> id' = uuid, role = r, content = c, timestamp = now \<rparr>]
   \<and> length (messages (addMessage uuid now r c state)) = Suc (length (messages state))
   \<and> take (length (messages state)) (messages (addMessage uuid now r c state)) = messages state
   \<and> messages (addMessages calls state) = messages state @ map new_message calls
   \<and> length (messages (addMessages calls state)) = length (messages state) + length calls"
  by (simp add: addMessage_def addMessages_messages)

theorem addMessage_appends_witness:
  "messages (addMessages [(''u1'', 10, User, JStr ''hi''), (''u2'', 20, Assistant, JStr ''Hello!'')] initial)
     = [\<lparr> id' = ''u1'', role = User, content = JStr ''hi'', timestamp = 10 \<rparr>,
        \<lparr> id' = ''u2'', role = Assistant, content = JStr ''Hello!'', timestamp = 20 \<rparr>]"
  using addMessage_appends [of "''u1''" 10 User "JStr ''hi''" initial
      "[(''u1'', 10, User, JStr ''hi''), (''u2'', 20, Assistant, JStr ''Hello!'')]"]
  by (simp add: initial_def new_message_def)

text \<open>
  C6. Whatever the state before, reset leaves exactly the initial value: every field
  has its initial value at once.
\<close>

theorem reset_is_initial:
  "reset state = initial
   \<and> sessionId (reset state) = JNull \<and> isUploading (reset state) = False
   \<and> isComplete (reset state) = False \<and> messages (reset state) = []
   \<and> isConnected (reset state) = False \<and> error (reset state) = JNull"
  by (simp add: reset_def initial_def)

theorem reset_is_initial_witness:
  "reset \<lparr> sessionId = JStr ''abc123'', isUploading = True, isComplete = True,
           messages = [\<lparr> id' = ''u1'', role = User, content = JStr ''hi'', timestamp = 10 \<rparr>],
           isConnected = True, error = JStr ''Upload failed'' \<rparr> = initial"
  using reset_is_initial [of "\<lparr> sessionId = JStr ''abc123'', isUploading = True, isComplete = True,
           messages = [\<lparr> id' = ''u1'', role = User, content = JStr ''hi'', timestamp = 10 \<rparr>],
           isConnected = True, error = JStr ''Upload failed'' \<rparr>"]
  by simp

text \<open>
  C10. Each flag setter changes its own field and no other; setSession changes
  sessionId and clears error and changes no other field; so a mutation that changes
  messages is addMessage or reset.
\<close>

theorem setters_frame:
  "sessionId (setUploading b state) = sessionId state \<and> isUploading (setUploading b state) = b
   \<and> isComplete (setUploading b state) = isComplete state \<and> messages (setUploading b state) = messages state
   \<and> isConnected (setUploading b state) = isConnected state \<and> error (setUploading b state) = error state
   \<and> sessionId (setConnected b state) = sessionId state \<and> isUploading (setConnected b state) = isUploading state
   \<and> isComplete (setConnected b state) = isComplete state \<and> messages (setConnected b state) = messages state
   \<and> isConnected (setConnected b state) = b \<and> error (setConnected b state) = error state
   \<and> sessionId (setComplete b state) = sessionId state \<and> isUploading (setComplete b state) = isUploading state
   \<and> isComplete (setComplete b state) = b \<and> messages (setComplete b state) = messages state
   \<and> isConnected (setComplete b state) = isConnected state \<and> error (setComplete b state) = error state
   \<and> sessionId (setError e state) = sessionId state \<and> isUploading (setError e state) = isUploading state
   \<and> isComplete (setError e state) = isComplete state \<and> messages (setError e state) = messages state
   \<and> isConnected (setError e state) = isConnected state \<and> error (setError e state) = e
   \<and> sessionId (setSession sid state) = sid \<and> isUploading (setSession sid state) = isUploading state
   \<and> isComplete (setSession sid state) = isComplete state \<and> messages (setSession sid state) = messages state
   \<and> isConnected (setSession sid state) = isConnected state \<and> error (setSession sid state) = JNull
   \<and> (messages (mutate m state) \<noteq> messages state \<longrightarrow>
        (\<exists>uuid now r c. m = AddMessage uuid now r c) \<or> m = Reset)"
  by (cases m)
     (simp_all add: setUploading_def setConnected_def setComplete_def setError_def setSession_def)

theorem setters_frame_witness:
  "messages (mutate (AddMessage ''u1'' 10 User (JStr ''hi'')) initial) \<noteq> messages initial
   \<and> ((\<exists>uuid now r c. AddMessage ''u1'' 10 User (JStr ''hi'') = AddMessage uuid now r c)
        \<or> AddMessage ''u1'' 10 User (JStr ''hi'') = Reset)
   \<and> setSession (JStr ''abc123'') (setError (JStr ''Upload failed'') initial)
        = initial\<lparr> sessionId := JStr ''abc123'' \<rparr>"
  using setters_frame [of True initial JNull "JStr ''abc123''" "AddMessage ''u1'' 10 User (JStr ''hi'')"]
  by (simp add: addMessage_def initial_def setSession_def setError_def)

section \<open>Properties of the transport client and the upload zone\<close>

lemma endsWith_iff: "endsWith s suf \<longleftrightarrow> (\<exists>p. s = p @ suf)"
proof
  assume "endsWith s suf"
  then have "s = take (length s - length suf) s @ suf"
    unfolding endsWith_def by (metis append_take_drop_id)
  then show "\<exists>p. s = p @ suf" ..
next
  assume "\<exists>p. s = p @ suf"
  then show "endsWith s suf" by (auto simp: endsWith_def)
qed

text \<open>
  C8, as amended. On a response that is not ok and whose body parses as JSON to a value
  other than null, each of uploadDocument, sendMessage and getStatus fails with an Error
  whose message is the body's detail field, converted to a string, when the field is
  truthy (the string itself when the field is a string), and the operation's fallback
  message when the field is absent or falsy. On an ok response sendMessage raises
  nothing, and uploadDocument and getStatus give what parsing the body gives. For
  sendMessage and getStatus this is said of a session id that converts to a string, so
  that the request is made; of the detail field it is said where it converts.
\<close>

theorem error_policy:
  "(\<not> ok response \<and> json response = Inr err \<and> getprop err ''detail'' = Some d
      \<and> toString d = Some m \<longrightarrow>
      (\<forall>s. d = JStr s \<longrightarrow> m = s)
      \<and> (net (uploadRequest file) = Inr response \<longrightarrow>
           fst (uploadDocument net file) = Inl (Error (if truthy d then m else ''Upload failed'')))
      \<and> (chatRequest sid msg = Inr request \<and> net request = Inr response \<longrightarrow>
           fst (sendMessage net sid msg) =
             Inl (Error (if truthy d then m else ''Failed to send message'')))
      \<and> (statusRequest sid = Inr request' \<and> net request' = Inr response \<longrightarrow>
           fst (getStatus net sid) =
             Inl (Error (if truthy d then m else ''Failed to get status''))))
   \<and> (ok response \<longrightarrow>
      (chatRequest sid msg = Inr request \<and> net request = Inr response \<longrightarrow>
         fst (sendMessage net sid msg) = Inr ())
      \<and> (net (uploadRequest file) = Inr response \<longrightarrow> fst (uploadDocument net file) = json response)
      \<and> (statusRequest sid = Inr request' \<and> net request' = Inr response \<longrightarrow>
         fst (getStatus net sid) = json response))"
  by (auto simp: fail_with_def or_else_def uploadDocument_def sendMessage_def getStatus_def)

theorem error_policy_witness:
  "fst (sendMessage (\<lambda>request. Inr \<lparr> ok = False, json = Inr (JObj [(''detail'', JStr ''Session not found'')]) \<rparr>)
         (JStr ''abc123'') ''hello'')
     = Inl (Error ''Session not found'')
   \<and> fst (uploadDocument (\<lambda>request. Inr \<lparr> ok = False, json = Inr (JObj []) \<rparr>) (File ''form.docx''))
     = Inl (Error ''Upload failed'')
   \<and> fst (sendMessage (\<lambda>request. Inr \<lparr> ok = True, json = Inr (JObj []) \<rparr>) (JStr ''abc123'') ''hello'')
     = Inr ()"
proof -
  let ?chat = "\<lparr> req_method = ''POST'', req_url = API_BASE @ ''/chat/'' @ ''abc123'',
                 req_body = JsonBody (JObj [(''message'', JStr ''hello'')]) \<rparr>"
  let ?status = "\<lparr> req_method = ''GET'', req_url = API_BASE @ ''/status/'' @ ''abc123'',
                   req_body = NoBody \<rparr>"
  have c: "chatRequest (JStr ''abc123'') ''hello'' = Inr ?chat"
    by (simp add: chatRequest_def)
  show ?thesis
    using c
      error_policy [of "\<lparr> ok = False, json = Inr (JObj [(''detail'', JStr ''Session not found'')]) \<rparr>"
        "JObj [(''detail'', JStr ''Session not found'')]" "JStr ''Session not found''"
        "''Session not found''"
        "\<lambda>request. Inr \<lparr> ok = False, json = Inr (JObj [(''detail'', JStr ''Session not found'')]) \<rparr>"
        "File ''form.docx''" "JStr ''abc123''" "''hello''" ?chat ?status]
      error_policy [of "\<lparr> ok = False, json = Inr (JObj []) \<rparr>" "JObj []" JUndefined "''undefined''"
        "\<lambda>request. Inr \<lparr> ok = False, json = Inr (JObj []) \<rparr>" "File ''form.docx''"
        "JStr ''abc123''" "''hello''" ?chat ?status]
      error_policy [of "\<lparr> ok = True, json = Inr (JObj []) \<rparr>" "JObj []" JUndefined "''undefined''"
        "\<lambda>request. Inr \<lparr> ok = True, json = Inr (JObj []) \<rparr>" "File ''form.docx''"
        "JStr ''abc123''" "''hello''" ?chat ?status]
    by simp
qed

text \<open>
  C8 as stated fails: a response that is not ok with a body that is not JSON makes the
  operation fail with the parser's SyntaxError, not with the fallback message; a detail
  field that is present and empty gives the fallback, not the field; and an ok response
  with a body that is not JSON makes getStatus fail.
\<close>

theorem error_policy_counterexample:
  "fst (uploadDocument
         (\<lambda>request. Inr \<lparr> ok = False, json = Inl (SyntaxError ''Unexpected token I in JSON at position 0'') \<rparr>)
         (File ''form.docx''))
     = Inl (SyntaxError ''Unexpected token I in JSON at position 0'')
   \<and> spec_error_message ''Upload failed''
        \<lparr> ok = False, json = Inl (SyntaxError ''Unexpected token I in JSON at position 0'') \<rparr>
     = ''Upload failed''
   \<and> fst (uploadDocument
         (\<lambda>request. Inr \<lparr> ok = False, json = Inr (JObj [(''detail'', JStr [])]) \<rparr>) (File ''form.docx''))
     = Inl (Error ''Upload failed'')
   \<and> spec_error_message ''Upload failed'' \<lparr> ok = False, json = Inr (JObj [(''detail'', JStr [])]) \<rparr> = []
   \<and> fst (getStatus
         (\<lambda>request. Inr \<lparr> ok = True, json = Inl (SyntaxError ''Unexpected end of JSON input'') \<rparr>)
         (JStr ''abc123''))
     = Inl (SyntaxError ''Unexpected end of JSON input'')"
  by (simp add: uploadDocument_def getStatus_def statusRequest_def fail_with_def
        spec_error_message_def or_else_def)

text \<open>
  C9. A file whose name does not end in ".docx": the store's error becomes "Please
  upload a .docx file", no other field changes and no request is made. A file whose
  name ends in ".docx": exactly the upload request is made, by uploadDocument; when the
  answer is ok and its body has a session_id, sessionId becomes that session_id (and,
  as setSession does, error becomes null), the uploading flag is false at the end, and
  no other field changes.
\<close>

theorem handleFile_checks_extension:
  "(\<not> (\<exists>p. name file = p @ ''.docx'') \<longrightarrow>
      error (fst (handleFile net file state)) = JStr ''Please upload a .docx file''
      \<and> sessionId (fst (handleFile net file state)) = sessionId state
      \<and> isUploading (fst (handleFile net file state)) = isUploading state
      \<and> isComplete (fst (handleFile net file state)) = isComplete state
      \<and> messages (fst (handleFile net file state)) = messages state
      \<and> isConnected (fst (handleFile net file state)) = isConnected state
      \<and> snd (handleFile net file state) = [])
   \<and> ((\<exists>p. name file = p @ ''.docx'') \<longrightarrow>
      snd (handleFile net file state) = snd (uploadDocument net file)
      \<and> snd (handleFile net file state) =
          [\<lparr> req_method = ''POST'', req_url = API_BASE @ ''/upload'', req_body = FormFile file \<rparr>]
      \<and> (\<forall>response parsed sid.
            net \<lparr> req_method = ''POST'', req_url = API_BASE @ ''/upload'', req_body = FormFile file \<rparr>
              = Inr response
            \<and> ok response \<and> json response = Inr parsed \<and> getprop parsed ''session_id'' = Some sid \<longrightarrow>
            sessionId (fst (handleFile net file state)) = sid
            \<and> error (fst (handleFile net file state)) = JNull
            \<and> isUploading (fst (handleFile net file state)) = False
            \<and> isComplete (fst (handleFile net file state)) = isComplete state
            \<and> messages (fst (handleFile net file state)) = messages state
            \<and> isConnected (fst (handleFile net file state)) = isConnected state))"
  by (auto simp: handleFile_def endsWith_iff [symmetric] uploadDocument_def uploadRequest_def
           Let_def setError_def setUploading_def setSession_def
           split: sum.splits prod.splits option.splits)

theorem handleFile_checks_extension_witness:
  "handleFile (\<lambda>request. Inl (TypeError ''Failed to fetch'')) (File ''notes.txt'') initial
     = (\<lparr> sessionId = JNull, isUploading = False, isComplete = False, messages = [],
          isConnected = False, error = JStr ''Please upload a .docx file'' \<rparr>, [])
   \<and> handleFile (\<lambda>request. Inr \<lparr> ok = True, json = Inr (JObj [(''session_id'', JStr ''abc123''), (''message'', JStr ''ok'')]) \<rparr>)
        (File ''form.docx'') (initial\<lparr> error := JStr ''Upload failed'' \<rparr>)
     = (\<lparr> sessionId = JStr ''abc123'', isUploading = False, isComplete = False, messages = [],
          isConnected = False, error = JNull \<rparr>,
        [\<lparr> req_method = ''POST'', req_url = ''http://localhost:8000/api/upload'', req_body = FormFile (File ''form.docx'') \<rparr>])"
proof -
  let ?net = "\<lambda>request::Request. (Inr \<lparr> ok = True,
      json = Inr (JObj [(''session_id'', JStr ''abc123''), (''message'', JStr ''ok'')]) \<rparr> :: fetched)"
  let ?st = "initial\<lparr> error := JStr ''Upload failed'' \<rparr>"
  have a: "\<not> (\<exists>p. name (File ''notes.txt'') = p @ ''.docx'')"
    by (simp add: endsWith_iff [symmetric] endsWith_def)
  have b: "\<exists>p. name (File ''form.docx'') = p @ ''.docx''"
    by (simp add: endsWith_iff [symmetric] endsWith_def)
  have 1: "error (fst (handleFile (\<lambda>request. Inl (TypeError ''Failed to fetch'')) (File ''notes.txt'') initial))
             = JStr ''Please upload a .docx file''
        \<and> sessionId (fst (handleFile (\<lambda>request. Inl (TypeError ''Failed to fetch'')) (File ''notes.txt'') initial))
             = JNull
        \<and> snd (handleFile (\<lambda>request. Inl (TypeError ''Failed to fetch'')) (File ''notes.txt'') initial) = []"
    using a handleFile_checks_extension [of "File ''notes.txt''"
        "\<lambda>request. Inl (TypeError ''Failed to fetch'')" initial]
    by (simp add: initial_def)
  have 2: "sessionId (fst (handleFile ?net (File ''form.docx'') ?st)) = JStr ''abc123''
        \<and> error (fst (handleFile ?net (File ''form.docx'') ?st)) = JNull"
    using b handleFile_checks_extension [of "File ''form.docx''" ?net ?st]
    by simp
  show ?thesis
    using 1 2
    by (simp add: handleFile_def endsWith_def uploadDocument_def uploadRequest_def API_BASE_def
          setError_def setUploading_def setSession_def initial_def)
qed

section \<open>Properties of the message handler\<close>

lemma getprop_total: "getprop data k = Some v \<Longrightarrow> \<exists>w. getprop data k' = Some w"
  by (cases data) (auto split: option.splits)

text \<open>
  C7. A payload that does not parse as JSON, and a parsed payload whose type is none of
  "message", "done" and "error", leave the page and the store as they are.
\<close>

theorem unknown_payload_ignored:
  "onmessage i None uuid now app = app
   \<and> store (onmessage i None uuid now app) = store app
   \<and> (getprop data ''type'' \<noteq> Some (JStr ''message'') \<and> getprop data ''type'' \<noteq> Some (JStr ''done'')
        \<and> getprop data ''type'' \<noteq> Some (JStr ''error'')
      \<longrightarrow> onmessage i (Some data) uuid now app = app
          \<and> store (onmessage i (Some data) uuid now app) = store app)"
  by (auto simp: onmessage_def split: option.splits)

theorem unknown_payload_ignored_witness:
  "store (onmessage 0 (Some (JObj [(''type'', JStr ''ping'')])) ''u1'' 10 (run [uploaded ''abc123''] start))
     = store (run [uploaded ''abc123''] start)
   \<and> store (onmessage 0 (Some JNull) ''u1'' 10 (run [uploaded ''abc123''] start))
     = store (run [uploaded ''abc123''] start)
   \<and> store (onmessage 0 None ''u1'' 10 (run [uploaded ''abc123''] start))
     = store (run [uploaded ''abc123''] start)"
  using
    unknown_payload_ignored [of 0 "''u1''" 10 "run [uploaded ''abc123''] start" "JObj [(''type'', JStr ''ping'')]"]
    unknown_payload_ignored [of 0 "''u1''" 10 "run [uploaded ''abc123''] start" JNull]
  by simp

text \<open>
  C1. A done event handled while a session id is set, by the component whose current
  handle is \<open>h\<close>: isComplete becomes true when is_complete is true and stays as it was
  otherwise; in both cases handle \<open>h\<close> is closed and exactly one new EventSource is
  constructed, for the stream url of the same session id, and becomes the component's
  current handle. The handler does all of it in one run. The session id is one that
  converts to a string \<open>s\<close>, as every string does.
\<close>

theorem done_closes_and_reopens:
  assumes "i < length (eventSource app)" and "eventSource app ! i = Some h"
    and "h < length (sources app)"
    and "truthy (sessionId (store app))"
    and "toString (sessionId (store app)) = Some s"
    and "getprop data ''type'' = Some (JStr ''done'')"
    and "getprop data ''is_complete'' = Some (JBool b)"
  shows "isComplete (store (onmessage i (Some data) uuid now app)) = (b \<or> isComplete (store app))
    \<and> sessionId (store (onmessage i (Some data) uuid now app)) = sessionId (store app)
    \<and> sources (onmessage i (Some data) uuid now app) =
         (sources app)[h := (sources app ! h)\<lparr> readyState := CLOSED \<rparr>] @
         [\<lparr> url = API_BASE @ ''/chat/stream/'' @ s,
            readyState = CONNECTING, listener = Some i \<rparr>]
    \<and> eventSource (onmessage i (Some data) uuid now app) ! i = Some (length (sources app))"
proof -
  obtain c where c: "getprop data ''content'' = Some c"
    using getprop_total [OF assms(6)] by blast
  show ?thesis
    using assms c
    by (cases b)
       (simp_all add: onmessage_def reconnectSSE_def close_current_def close_def connectSSE_def
          createEventSource_def setComplete_def setConnected_def Let_def)
qed

theorem done_closes_and_reopens_witness:
  "isComplete (store (onmessage 0 (done_event True) ''u1'' 10 (run [uploaded ''abc123''] start)))
   \<and> sources (onmessage 0 (done_event True) ''u1'' 10 (run [uploaded ''abc123''] start)) =
       [\<lparr> url = ''http://localhost:8000/api/chat/stream/abc123'', readyState = CLOSED, listener = Some 0 \<rparr>,
        \<lparr> url = ''http://localhost:8000/api/chat/stream/abc123'', readyState = CONNECTING, listener = Some 0 \<rparr>]
   \<and> eventSource (onmessage 0 (done_event True) ''u1'' 10 (run [uploaded ''abc123''] start)) = [Some 1]"
proof -
  have st: "run [uploaded ''abc123''] start =
    \<lparr> store = \<lparr> sessionId = JStr ''abc123'', isUploading = False, isComplete = False,
                 messages = [], isConnected = True, error = JNull \<rparr>,
      sources = [\<lparr> url = ''http://localhost:8000/api/chat/stream/abc123'',
                   readyState = CONNECTING, listener = Some 0 \<rparr>],
      eventSource = [Some 0], mounted = Some 0, timers = [] \<rparr>"
    by (simp add: model_defs)
  have ev: "eventSource (onmessage 0 (done_event True) ''u1'' 10 (run [uploaded ''abc123''] start)) = [Some 1]"
    by (simp add: st done_event_def onmessage_def reconnectSSE_def close_current_def close_def
          connectSSE_def createEventSource_def setComplete_def setConnected_def Let_def)
  show ?thesis
    using ev done_closes_and_reopens [where i = 0 and app = "run [uploaded ''abc123''] start"
        and h = 0 and s = "''abc123''"
        and data = "JObj [(''type'', JStr ''done''), (''is_complete'', JBool True)]"
        and b = True and uuid = "''u1''" and now = 10]
    by (simp add: st done_event_def API_BASE_def)
qed

text \<open>
  Where the session id does not convert to a string, createEventSource throws inside
  the handler's \<open>try\<close>: the handle is closed and none is opened.
\<close>

lemma done_with_unconvertible_id:
  assumes "eventSource app ! i = Some h"
    and "toString (sessionId (store app)) = None"
    and "getprop data ''type'' = Some (JStr ''done'')"
    and "getprop data ''is_complete'' = Some (JBool b)"
  shows "sources (onmessage i (Some data) uuid now app) =
           (sources app)[h := (sources app ! h)\<lparr> readyState := CLOSED \<rparr>]
    \<and> eventSource (onmessage i (Some data) uuid now app) = eventSource app"
proof -
  obtain c where c: "getprop data ''content'' = Some c"
    using getprop_total [OF assms(3)] by blast
  show ?thesis
    using assms c
    by (cases b)
       (simp_all add: onmessage_def reconnectSSE_def close_current_def close_def connectSSE_def
          createEventSource_def setComplete_def Let_def)
qed

section \<open>Properties of the connection life cycle\<close>

lemma ok_refl: "opened_or_kept app app"
  by (simp add: opened_or_kept_def)

lemma ok_trans: "opened_or_kept a b \<Longrightarrow> opened_or_kept b c \<Longrightarrow> opened_or_kept a c"
  by (auto simp: opened_or_kept_def)

lemma ok_close: "opened_or_kept app (close h app)"
  by (simp add: opened_or_kept_def close_def)

lemma ok_close_current: "opened_or_kept app (close_current i app)"
  by (simp add: close_current_def ok_close ok_refl split: option.splits)

lemma ok_connectSSE: "opened_or_kept app (connectSSE i app)"
  by (simp add: opened_or_kept_def connectSSE_def Let_def split: sum.splits)

lemma ok_reconnectSSE: "opened_or_kept app (reconnectSSE i app)"
  unfolding reconnectSSE_def Let_def
  using ok_trans [OF ok_close_current ok_connectSSE] ok_close_current by simp

lemma ok_store:
  "isConnected st \<longrightarrow> isConnected (store app) \<Longrightarrow> opened_or_kept app (app\<lparr> store := st \<rparr>)"
  by (simp add: opened_or_kept_def)

lemma ok_onmessage: "opened_or_kept app (onmessage i parsed uuid now app)"
proof -
  have a: "opened_or_kept app (app\<lparr> store := setComplete True (store app) \<rparr>)"
    by (rule ok_store) (simp add: setComplete_def)
  have "opened_or_kept app (reconnectSSE i (app\<lparr> store := setComplete True (store app) \<rparr>))"
    by (rule ok_trans [OF a ok_reconnectSSE])
  then show ?thesis
    by (auto simp: onmessage_def ok_refl ok_reconnectSSE addMessage_def setError_def
             intro!: ok_store split: option.splits)
qed

lemma ok_onerror: "opened_or_kept app (onerror i app)"
  by (simp add: opened_or_kept_def onerror_def setConnected_def)

lemma ok_handleNewSession: "opened_or_kept app (handleNewSession i app)"
proof -
  have "opened_or_kept (close_current i app)
          ((close_current i app)\<lparr> store := reset (store (close_current i app)) \<rparr>)"
    by (rule ok_store) (simp add: reset_def)
  then show ?thesis
    unfolding handleNewSession_def Let_def by (rule ok_trans [OF ok_close_current])
qed

lemma ok_onMount: "opened_or_kept app (onMount i app)"
  by (simp add: onMount_def ok_connectSSE ok_refl)

lemma ok_effect: "opened_or_kept app (effect i app)"
  by (simp add: effect_def ok_connectSSE ok_refl)

lemma ok_onDestroy: "opened_or_kept app (onDestroy i app)"
  by (simp add: onDestroy_def ok_close_current)

lemma ok_render: "opened_or_kept app (render app)"
proof -
  let ?i = "length (eventSource app)"
  let ?a = "app\<lparr> eventSource := eventSource app @ [None], mounted := Some ?i \<rparr>"
  have 1: "opened_or_kept app ?a" by (simp add: opened_or_kept_def)
  have 2: "opened_or_kept app (effect ?i (onMount ?i ?a))"
    by (rule ok_trans [OF 1 ok_trans [OF ok_onMount ok_effect]])
  have 3: "opened_or_kept app ((onDestroy j app)\<lparr> mounted := None \<rparr>)" for j
    using ok_onDestroy [of app j] by (simp add: opened_or_kept_def)
  show ?thesis
    using 2 3 by (simp add: render_def Let_def ok_effect ok_refl split: option.splits)
qed

lemma handleFile_isConnected: "isConnected (fst (handleFile net f st)) = isConnected st"
  by (simp add: handleFile_def Let_def setError_def setUploading_def setSession_def
           split: prod.splits sum.splits option.splits)

lemma handleSubmit_isConnected:
  "isConnected (fst (handleSubmit net msg uuid now st)) = isConnected st"
  by (simp add: handleSubmit_def Let_def setError_def addMessage_def
           split: prod.splits sum.splits)

lemma ok_step: "opened_or_kept app (step e app)"
proof (cases e)
  case (Upload f answer)
  have "opened_or_kept app (app\<lparr> store := fst (handleFile (\<lambda>request. answer) f (store app)) \<rparr>)"
    by (rule ok_store) (simp add: handleFile_isConnected)
  then show ?thesis
    using Upload ok_trans [OF _ ok_render] by (simp add: ok_refl)
next
  case (TransportOpen h)
  then show ?thesis by (simp add: opened_or_kept_def)
next
  case (StreamMessage h parsed uuid now)
  then show ?thesis
    using ok_trans [OF ok_onmessage ok_render] by (simp add: ok_refl split: option.splits)
next
  case (TransportError h fatal)
  have "opened_or_kept app (app\<lparr> sources := (sources app)[h := (sources app ! h)\<lparr> readyState := r \<rparr>] \<rparr>)"
    for r by (simp add: opened_or_kept_def)
  then have "opened_or_kept app
      (render (onerror i (app\<lparr> sources := (sources app)[h := (sources app ! h)\<lparr> readyState := r \<rparr>] \<rparr>)))"
    for i r using ok_trans [OF _ ok_trans [OF ok_onerror ok_render]] by blast
  then show ?thesis
    using TransportError by (simp add: ok_refl split: option.splits)
next
  case (Timeout k)
  let ?a = "app\<lparr> timers := take k (timers app) @ drop (Suc k) (timers app) \<rparr>"
  have "opened_or_kept app ?a" by (simp add: opened_or_kept_def)
  then have "opened_or_kept app (render (reconnectSSE i ?a))" for i
    using ok_trans [OF _ ok_trans [OF ok_reconnectSSE ok_render]] by blast
  then show ?thesis
    using Timeout by (simp add: ok_refl)
next
  case (Submit msg answer uuid now)
  have "opened_or_kept app
      (app\<lparr> store := fst (handleSubmit (\<lambda>request. answer) msg uuid now (store app)) \<rparr>)"
    by (rule ok_store) (simp add: handleSubmit_isConnected)
  then show ?thesis
    using Submit ok_trans [OF _ ok_render] by (simp add: ok_refl split: option.splits)
next
  case NewSession
  then show ?thesis
    using ok_trans [OF ok_handleNewSession ok_render] by (simp add: ok_refl split: option.splits)
qed

text \<open>
  C4, as amended. isConnected is not derived from the transport's open signal: the open
  signal changes no field of the store. In any step of the page, isConnected turns from
  false to true only if an EventSource is constructed in that step. connectSSE, run
  while a session id is set (one that converts to a string), sets isConnected to true
  in the run in which it constructs the EventSource, whose readyState is then still
  CONNECTING. The error callback sets isConnected to false.
\<close>

theorem connected_set_on_construction:
  "store (step (TransportOpen h) app) = store app
   \<and> (\<not> isConnected (store app) \<and> isConnected (store (step e app)) \<longrightarrow>
        length (sources app) < length (sources (step e app)))
   \<and> (truthy (sessionId (store app)) \<and> toString (sessionId (store app)) = Some s \<longrightarrow>
        isConnected (store (connectSSE i app))
        \<and> sources (connectSSE i app) = sources app @
            [\<lparr> url = API_BASE @ ''/chat/stream/'' @ s,
               readyState = CONNECTING, listener = Some i \<rparr>])
   \<and> \<not> isConnected (store (onerror i app))"
proof -
  have "\<not> isConnected (store app) \<and> isConnected (store (step e app)) \<longrightarrow>
        length (sources app) < length (sources (step e app))"
    using ok_step [of app e] unfolding opened_or_kept_def by blast
  then show ?thesis
    by (simp add: connectSSE_def Let_def createEventSource_def setConnected_def onerror_def)
qed

theorem connected_set_on_construction_witness:
  "\<not> isConnected (store start) \<and> isConnected (store (step (uploaded ''abc123'') start))
   \<and> length (sources start) < length (sources (step (uploaded ''abc123'') start))
   \<and> store (step (TransportOpen 0) (step (uploaded ''abc123'') start))
       = store (step (uploaded ''abc123'') start)"
proof -
  have "\<not> isConnected (store start) \<and> isConnected (store (step (uploaded ''abc123'') start))"
    by (simp add: model_defs)
  then show ?thesis
    using connected_set_on_construction [where h = 0 and app = start and e = "uploaded ''abc123''"]
      connected_set_on_construction [where h = 0 and app = "step (uploaded ''abc123'') start"]
    by simp
qed

text \<open>
  C4 as stated fails: right after a successful upload the store says connected while
  the only EventSource is still connecting; no open signal has been delivered.
\<close>

theorem connected_before_open_counterexample:
  "isConnected (store (run [uploaded ''abc123''] start))
   \<and> sources (run [uploaded ''abc123''] start) =
       [\<lparr> url = ''http://localhost:8000/api/chat/stream/abc123'', readyState = CONNECTING,
          listener = Some 0 \<rparr>]"
  by (simp add: model_defs)

lemma length_sources_close_current:
  "length (sources (close_current i app)) = length (sources app)"
  by (simp add: close_current_def close_def split: option.splits)

lemma store_close_current: "store (close_current i app) = store app"
  by (simp add: close_current_def close_def split: option.splits)

lemma timers_close_current: "timers (close_current i app) = timers app"
  by (simp add: close_current_def close_def split: option.splits)

lemma timers_connectSSE: "timers (connectSSE i app) = timers app"
  by (simp add: connectSSE_def Let_def split: sum.splits)

lemma timers_reconnectSSE: "timers (reconnectSSE i app) = timers app"
  by (simp add: reconnectSSE_def Let_def timers_connectSSE timers_close_current)

lemma timers_render: "timers (render app) = timers app"
  by (simp add: render_def Let_def effect_def onMount_def onDestroy_def timers_connectSSE
        timers_close_current split: option.splits)

lemma reconnectSSE_no_session:
  "\<not> truthy (sessionId (store app)) \<Longrightarrow>
     length (sources (reconnectSSE i app)) = length (sources app)
     \<and> store (reconnectSSE i app) = store app"
  by (simp add: reconnectSSE_def Let_def store_close_current length_sources_close_current)

lemma render_no_session:
  "\<not> truthy (sessionId (store app)) \<Longrightarrow> length (sources (render app)) = length (sources app)"
  by (simp add: render_def Let_def effect_def onMount_def onDestroy_def
        length_sources_close_current split: option.splits)

lemma timeout_no_session:
  assumes "\<not> truthy (sessionId (store app))"
  shows "length (sources (step (Timeout k) app)) = length (sources app)"
proof (cases "k < length (timers app)")
  case True
  let ?a = "app\<lparr> timers := take k (timers app) @ drop (Suc k) (timers app) \<rparr>"
  have a: "\<not> truthy (sessionId (store ?a))" using assms by simp
  have "\<not> truthy (sessionId (store (reconnectSSE (timers app ! k) ?a)))"
    using reconnectSSE_no_session [OF a] a by simp
  then have "length (sources (render (reconnectSSE (timers app ! k) ?a)))
               = length (sources (reconnectSSE (timers app ! k) ?a))"
    by (rule render_no_session)
  then show ?thesis
    using True reconnectSSE_no_session [OF a] by simp
next
  case False
  then show ?thesis by simp
qed

lemma timeout_consumes_timer:
  "k < length (timers app) \<Longrightarrow> Suc (length (timers (step (Timeout k) app))) = length (timers app)"
  by (simp add: timers_render timers_reconnectSSE)

text \<open>
  What the error callback and the reconnect timer do. The error callback sets
  isConnected to false, changes nothing else in the store, opens nothing and schedules
  exactly one reconnect timer. A timer fires once. When it fires, reconnectSSE first
  closes the component's handle; then, if a session id is set at that moment and the
  component is still on the page, exactly one EventSource is constructed, for that
  session id (one that converts to a string); if no session id is set at that moment,
  as after a reset that no upload has followed, none is constructed and the store stays
  as it is.
\<close>

theorem reconnect_rechecks_session:
  "store (onerror i app) = setConnected False (store app)
   \<and> \<not> isConnected (store (onerror i app))
   \<and> timers (onerror i app) = timers app @ [i]
   \<and> sources (onerror i app) = sources app
   \<and> (k < length (timers app) \<longrightarrow>
        Suc (length (timers (step (Timeout k) app))) = length (timers app))
   \<and> (\<forall>h. eventSource app ! i = Some h \<and> h < length (sources app) \<longrightarrow>
        readyState (sources (reconnectSSE i app) ! h) = CLOSED)
   \<and> (mounted app = Some i \<and> truthy (sessionId (store app))
        \<and> toString (sessionId (store app)) = Some s \<longrightarrow>
        sources (reconnectSSE i app) = sources (close_current i app) @
          [\<lparr> url = API_BASE @ ''/chat/stream/'' @ s,
             readyState = CONNECTING, listener = Some i \<rparr>]
        \<and> length (sources (reconnectSSE i app)) = Suc (length (sources app)))
   \<and> (\<not> truthy (sessionId (store app)) \<longrightarrow>
        length (sources (reconnectSSE i app)) = length (sources app)
        \<and> store (reconnectSSE i app) = store app
        \<and> length (sources (step (Timeout k) app)) = length (sources app))
   \<and> sessionId (store (handleNewSession i app)) = JNull"
proof -
  have 1: "k < length (timers app) \<longrightarrow>
        Suc (length (timers (step (Timeout k) app))) = length (timers app)"
    using timeout_consumes_timer by blast
  have 2: "\<forall>h. eventSource app ! i = Some h \<and> h < length (sources app) \<longrightarrow>
        readyState (sources (reconnectSSE i app) ! h) = CLOSED"
    by (simp add: reconnectSSE_def close_current_def close_def connectSSE_def Let_def nth_append
          split: sum.splits)
  have 3: "mounted app = Some i \<and> truthy (sessionId (store app))
        \<and> toString (sessionId (store app)) = Some s \<longrightarrow>
        sources (reconnectSSE i app) = sources (close_current i app) @
          [\<lparr> url = API_BASE @ ''/chat/stream/'' @ s,
             readyState = CONNECTING, listener = Some i \<rparr>]
        \<and> length (sources (reconnectSSE i app)) = Suc (length (sources app))"
    by (simp add: reconnectSSE_def connectSSE_def createEventSource_def Let_def
          store_close_current length_sources_close_current)
  have 4: "\<not> truthy (sessionId (store app)) \<longrightarrow>
        length (sources (reconnectSSE i app)) = length (sources app)
        \<and> store (reconnectSSE i app) = store app
        \<and> length (sources (step (Timeout k) app)) = length (sources app)"
    using reconnectSSE_no_session timeout_no_session by blast
  have 5: "sessionId (store (handleNewSession i app)) = JNull"
    by (simp add: handleNewSession_def Let_def reset_def)
  have 0: "store (onerror i app) = setConnected False (store app)
      \<and> \<not> isConnected (store (onerror i app))
      \<and> timers (onerror i app) = timers app @ [i]
      \<and> sources (onerror i app) = sources app"
    by (simp add: onerror_def setConnected_def)
  from 0 1 2 3 4 5 show ?thesis by blast
qed

lemma after_error:
  "run [uploaded ''s1'', TransportError 0 False] start =
    \<lparr> store = \<lparr> sessionId = JStr ''s1'', isUploading = False, isComplete = False,
                 messages = [], isConnected = False, error = JNull \<rparr>,
      sources = [\<lparr> url = ''http://localhost:8000/api/chat/stream/s1'',
                   readyState = CONNECTING, listener = Some 0 \<rparr>],
      eventSource = [Some 0], mounted = Some 0, timers = [0] \<rparr>"
  by (simp add: model_defs)

lemma after_error_and_reset:
  "run [uploaded ''s1'', TransportError 0 False, NewSession] start =
    \<lparr> store = initial,
      sources = [\<lparr> url = ''http://localhost:8000/api/chat/stream/s1'',
                   readyState = CLOSED, listener = Some 0 \<rparr>],
      eventSource = [Some 0], mounted = None, timers = [0] \<rparr>"
  by (simp add: model_defs)

theorem reconnect_rechecks_session_witness:
  "sources (reconnectSSE 0 (run [uploaded ''s1'', TransportError 0 False] start)) =
     [\<lparr> url = ''http://localhost:8000/api/chat/stream/s1'', readyState = CLOSED, listener = Some 0 \<rparr>,
      \<lparr> url = ''http://localhost:8000/api/chat/stream/s1'', readyState = CONNECTING, listener = Some 0 \<rparr>]
   \<and> length (sources (step (Timeout 0) (run [uploaded ''s1'', TransportError 0 False, NewSession] start)))
       = length (sources (run [uploaded ''s1'', TransportError 0 False, NewSession] start))
   \<and> length (timers (step (Timeout 0) (run [uploaded ''s1'', TransportError 0 False, NewSession] start))) = 0"
  using
    reconnect_rechecks_session [where i = 0 and k = 0 and s = "''s1''"
      and app = "run [uploaded ''s1'', TransportError 0 False] start"]
    reconnect_rechecks_session [where i = 0 and k = 0 and s = "''s1''"
      and app = "run [uploaded ''s1'', TransportError 0 False, NewSession] start"]
  by (simp add: after_error after_error_and_reset initial_def API_BASE_def close_current_def close_def)

text \<open>
  C3. After an error callback, one reconnect attempt is due when the timer fires with
  the session still set, and none if the session was reset in the interim. The code
  cancels by re-checking the session id when the timer fires and never clears the
  timer: a stream of session s1 reports an error, the user resets the session and
  uploads again before the timer fires; the session was reset in the interim, and yet
  the timer makes a reconnect attempt, from the component of the first session, to the
  stream of the new session.
\<close>

theorem reconnect_after_reset:
  "timers (run [uploaded ''s1'', TransportError 0 False, NewSession, uploaded ''s2''] start) = [0]
   \<and> sessionId (store (run [uploaded ''s1'', TransportError 0 False, NewSession] start)) = JNull
   \<and> sources (run [uploaded ''s1'', TransportError 0 False, NewSession, uploaded ''s2'', Timeout 0] start)
     = sources (run [uploaded ''s1'', TransportError 0 False, NewSession, uploaded ''s2''] start)
       @ [\<lparr> url = ''http://localhost:8000/api/chat/stream/s2'', readyState = CONNECTING,
            listener = Some 0 \<rparr>]"
  by (simp add: model_defs)

text \<open>
  C2. isComplete should never be true while sessionId is null. The invariant is broken
  by a reconnect timer that outlives its component: the stream it opens for the next
  session belongs to no mounted component, so the next reset closes the other stream
  and leaves this one open; a done event on it then sets isComplete while sessionId is
  null.
\<close>

theorem complete_without_session:
  "sessionId (store (run [uploaded ''s1'', TransportError 0 False, NewSession, uploaded ''s2'',
       Timeout 0, NewSession, TransportOpen 2, StreamMessage 2 (done_event True) ''u1'' 1] start)) = JNull
   \<and> isComplete (store (run [uploaded ''s1'', TransportError 0 False, NewSession, uploaded ''s2'',
       Timeout 0, NewSession, TransportOpen 2, StreamMessage 2 (done_event True) ''u1'' 1] start))"
  by (simp add: model_defs)

section \<open>The invariant of the session, apart from stale timers\<close>

declare store_close_current [simp]

lemma nth_update_cases: "j < length xs \<Longrightarrow> xs[i := x] ! j = (if i = j then x else xs ! j)"
  by (simp add: nth_list_update)

lemma all_closed_owned: "all_closed app \<Longrightarrow> owned app"
  by (auto simp: all_closed_def owned_def)

lemma owned_close: "owned app \<Longrightarrow> owned (close h app)"
  by (auto simp: owned_def close_def nth_update_cases)

lemma owned_close_current: "owned app \<Longrightarrow> owned (close_current j app)"
  by (simp add: close_current_def owned_close split: option.splits)

lemma all_closed_close: "all_closed app \<Longrightarrow> all_closed (close h app)"
  by (auto simp: all_closed_def close_def nth_update_cases)

lemma all_closed_close_current: "all_closed app \<Longrightarrow> all_closed (close_current j app)"
  by (simp add: close_current_def all_closed_close split: option.splits)

lemma owned_close_mounted:
  "owned app \<Longrightarrow> mounted app = Some i \<Longrightarrow> all_closed (close_current i app)"
  by (auto simp: owned_def all_closed_def close_current_def close_def nth_update_cases
           split: option.splits)

lemma mounted_close_current [simp]: "mounted (close_current j app) = mounted app"
  by (simp add: close_current_def close_def split: option.splits)

lemma eventSource_close_current [simp]: "eventSource (close_current j app) = eventSource app"
  by (simp add: close_current_def close_def split: option.splits)

lemma owned_connect:
  "all_closed app \<Longrightarrow> mounted app = Some i \<Longrightarrow> i < length (eventSource app) \<Longrightarrow>
   owned (connectSSE i app)"
  by (auto simp: owned_def all_closed_def connectSSE_def Let_def nth_append createEventSource_def
           split: sum.splits option.splits)

lemma mounted_connectSSE [simp]: "mounted (connectSSE i app) = mounted app"
  by (simp add: connectSSE_def Let_def split: sum.splits)

lemma length_eventSource_connectSSE [simp]:
  "length (eventSource (connectSSE i app)) = length (eventSource app)"
  by (simp add: connectSSE_def Let_def split: sum.splits)

lemma store_connectSSE:
  "sessionId (store (connectSSE i app)) = sessionId (store app)
   \<and> isComplete (store (connectSSE i app)) = isComplete (store app)"
  by (simp add: connectSSE_def Let_def setConnected_def split: sum.splits)


lemma owned_store [simp]: "owned (app\<lparr> store := st \<rparr>) = owned app"
  by (simp add: owned_def)

lemma owned_timers [simp]: "owned (app\<lparr> timers := ts \<rparr>) = owned app"
  by (simp add: owned_def)

lemma owned_none_closed: "owned app \<Longrightarrow> mounted app = None \<Longrightarrow> all_closed app"
  by (auto simp: owned_def all_closed_def)

lemma owned_unset_closed:
  "owned app \<Longrightarrow> mounted app = Some i \<Longrightarrow> eventSource app ! i = None \<Longrightarrow> all_closed app"
  by (auto simp: owned_def all_closed_def)

lemma owned_readyState:
  "owned app \<Longrightarrow> h < length (sources app) \<Longrightarrow> readyState (sources app ! h) \<noteq> CLOSED \<Longrightarrow>
   owned (app\<lparr> sources := (sources app)[h := (sources app ! h)\<lparr> readyState := r \<rparr>] \<rparr>)"
  by (auto simp: owned_def nth_update_cases)

lemma tidy_reconnect_mounted:
  assumes "tidy app" and "mounted app = Some i"
  shows "tidy (reconnectSSE i app)"
proof -
  have c: "all_closed (close_current i app)"
    using assms by (simp add: tidy_def owned_close_mounted)
  have i: "i < length (eventSource app)" using assms by (simp add: tidy_def)
  have "owned (connectSSE i (close_current i app))"
    using c assms(2) i by (simp add: owned_connect)
  then show ?thesis
    using assms c i
    by (simp add: tidy_def reconnectSSE_def Let_def store_connectSSE all_closed_owned)
qed

lemma tidy_reconnect_no_session:
  assumes "tidy app" and "\<not> truthy (sessionId (store app))"
  shows "tidy (reconnectSSE j app)"
  using assms by (simp add: tidy_def reconnectSSE_def Let_def owned_close_current)

lemma eventSource_connectSSE:
  "truthy (sessionId (store app)) \<Longrightarrow> i < length (eventSource app) \<Longrightarrow>
   eventSource (connectSSE i app) ! i = Some (length (sources app)) \<or> connectSSE i app = app"
  by (simp add: connectSSE_def Let_def split: sum.splits)

lemma truthy_not_null: "truthy v \<Longrightarrow> v \<noteq> JNull"
  by auto

lemma render_consistent:
  assumes "tidy app"
  shows "consistent (render app)"
proof (cases "hasSession (store app)")
  case False
  then have n: "sessionId (store app) = JNull" by (simp add: hasSession_def)
  show ?thesis
  proof (cases "mounted app")
    case None
    then show ?thesis using assms False n by (simp add: render_def consistent_def)
  next
    case (Some i)
    have "all_closed (close_current i app)"
      using assms Some by (simp add: tidy_def owned_close_mounted)
    then have "owned ((close_current i app)\<lparr> mounted := None \<rparr>)"
      by (simp add: all_closed_def owned_def)
    then show ?thesis
      using assms False n Some
      by (simp add: render_def consistent_def tidy_def onDestroy_def)
  qed
next
  case True
  then have n: "sessionId (store app) \<noteq> JNull" by (simp add: hasSession_def)
  show ?thesis
  proof (cases "mounted app")
    case (Some i)
    have i: "i < length (eventSource app)" using assms Some by (simp add: tidy_def)
    have "owned (connectSSE i app)" if "eventSource app ! i = None"
      using assms Some i that owned_unset_closed [of app i] by (simp add: tidy_def owned_connect)
    then show ?thesis
      using assms True n Some
      by (simp add: render_def consistent_def tidy_def effect_def store_connectSSE)
  next
    case None
    let ?i = "length (eventSource app)"
    let ?a = "app\<lparr> eventSource := eventSource app @ [None], mounted := Some ?i \<rparr>"
    have c: "all_closed ?a"
      using owned_none_closed [of app] assms None by (simp add: tidy_def all_closed_def)
    have r: "render app = effect ?i (onMount ?i ?a)"
      using True None by (simp add: render_def Let_def)
    show ?thesis
    proof (cases "truthy (sessionId (store app))")
      case False
      then have "effect ?i (onMount ?i ?a) = ?a" by (simp add: effect_def onMount_def)
      moreover have "consistent ?a"
        using assms n c by (simp add: consistent_def tidy_def all_closed_owned)
      ultimately show ?thesis using r by simp
    next
      case t: True
      have e: "eventSource (connectSSE ?i ?a) ! ?i = Some (length (sources ?a))
                 \<or> connectSSE ?i ?a = ?a"
        by (rule eventSource_connectSSE) (use t in simp_all)
      have s: "sessionId (store (connectSSE ?i ?a)) = sessionId (store app)"
        by (simp add: store_connectSSE)
      have "effect ?i (onMount ?i ?a) = connectSSE ?i ?a"
        using t e s by (auto simp: effect_def onMount_def)
      moreover have "owned (connectSSE ?i ?a)"
        using c by (simp add: owned_connect)
      then have "consistent (connectSSE ?i ?a)"
        using n by (simp add: consistent_def tidy_def store_connectSSE)
      ultimately show ?thesis using r by simp
    qed
  qed
qed


lemma handleFile_isComplete: "isComplete (fst (handleFile net f st)) = isComplete st"
  by (simp add: handleFile_def Let_def setError_def setUploading_def setSession_def
           split: prod.splits sum.splits option.splits)

lemma handleSubmit_session:
  "sessionId (fst (handleSubmit net msg uuid now st)) = sessionId st
   \<and> isComplete (fst (handleSubmit net msg uuid now st)) = isComplete st"
  by (simp add: handleSubmit_def Let_def setError_def addMessage_def
           split: prod.splits sum.splits)

lemma tidy_onmessage:
  assumes "consistent app" and "mounted app = Some i"
  shows "tidy (onmessage i parsed uuid now app)"
proof -
  have t: "tidy app" and n: "sessionId (store app) \<noteq> JNull"
    using assms by (simp_all add: consistent_def)
  have "tidy (app\<lparr> store := setComplete True (store app) \<rparr>)"
    using t n by (simp add: tidy_def setComplete_def)
  then have "tidy (reconnectSSE i (app\<lparr> store := setComplete True (store app) \<rparr>))"
    using assms(2) by (simp add: tidy_reconnect_mounted)
  moreover have "tidy (reconnectSSE i app)"
    using t assms(2) by (rule tidy_reconnect_mounted)
  moreover have "tidy (app\<lparr> store := addMessage uuid now Assistant c (store app) \<rparr>)" for c
    using t by (simp add: tidy_def addMessage_def)
  moreover have "tidy (app\<lparr> store := setError c (store app) \<rparr>)" for c
    using t by (simp add: tidy_def setError_def)
  ultimately show ?thesis
    using t by (simp add: onmessage_def split: option.splits)
qed

lemma step_consistent:
  assumes "consistent app" and "\<not> stale_timer e app"
  shows "consistent (step e app)"
proof -
  have t: "tidy app" using assms(1) by (simp add: consistent_def)
  have o: "owned app" using t by (simp add: tidy_def)
  show ?thesis
  proof (cases e)
    case (Upload f answer)
    show ?thesis
    proof (cases "mounted app")
      case None
      then have "\<not> isComplete (store app)"
        using assms(1) by (simp add: consistent_def tidy_def)
      then have "tidy (app\<lparr> store := fst (handleFile (\<lambda>request. answer) f (store app)) \<rparr>)"
        using t by (simp add: tidy_def handleFile_isComplete)
      then show ?thesis using Upload None by (simp add: render_consistent)
    next
      case (Some i)
      then show ?thesis using Upload assms(1) by simp
    qed
  next
    case (TransportOpen h)
    show ?thesis
    proof (cases "h < length (sources app) \<and> readyState (sources app ! h) = CONNECTING")
      case True
      then have "owned (app\<lparr> sources := (sources app)[h := (sources app ! h)\<lparr> readyState := OPEN \<rparr>] \<rparr>)"
        using o by (simp add: owned_readyState)
      then show ?thesis
        using TransportOpen True assms(1) by (simp add: consistent_def tidy_def)
    next
      case False
      then show ?thesis using TransportOpen assms(1) by auto
    qed
  next
    case (StreamMessage h parsed uuid now)
    show ?thesis
    proof (cases "h < length (sources app) \<and> readyState (sources app ! h) = OPEN")
      case True
      then obtain i where i: "mounted app = Some i" "listener (sources app ! h) = Some i"
        using o unfolding owned_def by force
      have "tidy (onmessage i parsed uuid now app)"
        using assms(1) i(1) by (rule tidy_onmessage)
      then show ?thesis
        using StreamMessage True i by (simp add: render_consistent)
    next
      case False
      then show ?thesis using StreamMessage assms(1) by auto
    qed
  next
    case (TransportError h fatal)
    show ?thesis
    proof (cases "h < length (sources app) \<and> readyState (sources app ! h) \<noteq> CLOSED")
      case True
      have "owned (app\<lparr> sources := (sources app)[h := (sources app ! h)\<lparr> readyState := r \<rparr>] \<rparr>)"
        for r using o True by (simp add: owned_readyState)
      then have "tidy (onerror i
          (app\<lparr> sources := (sources app)[h := (sources app ! h)\<lparr> readyState := r \<rparr>] \<rparr>))" for i r
        using t by (simp add: tidy_def onerror_def setConnected_def)
      then have "consistent (render (onerror i
          (app\<lparr> sources := (sources app)[h := (sources app ! h)\<lparr> readyState := r \<rparr>] \<rparr>)))" for i r
        by (rule render_consistent)
      then show ?thesis
        using TransportError True assms(1) by (simp split: option.splits)
    next
      case False
      then show ?thesis using TransportError assms(1) by auto
    qed
  next
    case (Timeout k)
    show ?thesis
    proof (cases "k < length (timers app)")
      case True
      let ?a = "app\<lparr> timers := take k (timers app) @ drop (Suc k) (timers app) \<rparr>"
      have ta: "tidy ?a" using t by (simp add: tidy_def)
      have "mounted app = Some (timers app ! k) \<or> \<not> truthy (sessionId (store app))"
        using assms(2) Timeout True by simp
      then have "tidy (reconnectSSE (timers app ! k) ?a)"
        using ta tidy_reconnect_mounted [of ?a "timers app ! k"]
          tidy_reconnect_no_session [of ?a "timers app ! k"] by auto
      then show ?thesis using Timeout True by (simp add: render_consistent)
    next
      case False
      then show ?thesis using Timeout assms(1) by simp
    qed
  next
    case (Submit msg answer uuid now)
    have "tidy (app\<lparr> store := fst (handleSubmit (\<lambda>request. answer) msg uuid now (store app)) \<rparr>)"
      using t by (simp add: tidy_def handleSubmit_session)
    then show ?thesis
      using Submit assms(1) by (simp add: render_consistent split: option.splits)
  next
    case NewSession
    have "tidy (handleNewSession i app)" for i
      using t by (simp add: tidy_def handleNewSession_def Let_def reset_def owned_close_current)
    then show ?thesis
      using NewSession assms(1) by (simp add: render_consistent split: option.splits)
  qed
qed

lemma consistent_start: "consistent start"
  by (simp add: consistent_def tidy_def owned_def start_def initial_def)

lemma run_consistent: "consistent app \<Longrightarrow> orderly es app \<Longrightarrow> consistent (run es app)"
proof (induction es arbitrary: app)
  case Nil
  then show ?case by (simp add: run_def)
next
  case (Cons e es)
  then have "consistent (step e app)" and "orderly es (step e app)"
    by (simp_all add: step_consistent)
  then have "consistent (run es (step e app))" by (rule Cons.IH)
  then show ?case by (simp add: run_def)
qed

text \<open>
  In every orderly run from the start of the page, isComplete is true only while a
  session id is set. Runs that are not orderly are the ones in which the reconnect
  timer of a component that was torn down fires during a later session.
\<close>

theorem complete_needs_session:
  "orderly es start \<Longrightarrow> isComplete (store (run es start)) \<Longrightarrow> sessionId (store (run es start)) \<noteq> JNull"
  using run_consistent [OF consistent_start, of es] by (auto simp: consistent_def tidy_def)

lemma complete_needs_session_example:
  "orderly [uploaded ''s1'', TransportOpen 0, StreamMessage 0 (done_event True) ''u1'' 1] start
   \<and> isComplete (store (run [uploaded ''s1'', TransportOpen 0,
         StreamMessage 0 (done_event True) ''u1'' 1] start))
   \<and> sessionId (store (run [uploaded ''s1'', TransportOpen 0,
         StreamMessage 0 (done_event True) ''u1'' 1] start)) = JStr ''s1''"
  by (simp add: model_defs)

lemma failing_run_not_orderly:
  "\<not> orderly [uploaded ''s1'', TransportError 0 False, NewSession, uploaded ''s2'',
       Timeout 0, NewSession, TransportOpen 2, StreamMessage 2 (done_event True) ''u1'' 1] start"
  by (simp add: model_defs)

end
